theory Spec2Isabelle
  imports Main "HOL-Library.Word"
begin

unbundle bit_operations_syntax

section \<open>diskdump.js: data model\<close>

text \<open>
  File names and paths are \<open>string\<close>s. The content of a file is a list of bytes. A
  file that is read with the "utf8" encoding becomes a JavaScript string, and
  \<open>isASCII\<close> inspects it with \<open>charCodeAt\<close>; such a string, and the JSON text of
  a disk image, is modelled as the list of its 16-bit code units.
\<close>

type_synonym byte = "8 word"
type_synonym jstext = "16 word list"

definition LF :: "16 word" where "LF = 10"
definition CR :: "16 word" where "CR = 13"

text \<open>
  The Node.js library functions that diskdump.js calls and whose results it only passes
  on: the UTF-8 decoder behind \<open>fs.readFileSync(f, "utf8")\<close>, the UTF-8 encoder
  behind \<open>fs.writeFileSync(f, string)\<close>, the constructor \<open>new DataBuffer(string)\<close>
  of nodebuffer.js, \<open>path.join\<close>, \<open>path.basename\<close>, \<open>path.delimiter\<close>, the mode
  that a file created by \<open>fs.writeFileSync\<close> gets (0o666 without the bits of the
  process's umask), the clock behind \<open>new Date()\<close> and the digest
  \<open>crypto.createHash(type).update(buffer).digest('hex')\<close>.
\<close>

record env =
  utf8_decode :: "byte list \<Rightarrow> jstext"
  utf8_encode :: "jstext \<Rightarrow> byte list"
  DataBuffer_of_text :: "jstext \<Rightarrow> byte list"
  path_join :: "string \<Rightarrow> string \<Rightarrow> string"
  path_basename :: "string \<Rightarrow> string"
  path_delimiter :: string
  create_mode :: nat
  now :: nat
  crypto_hash :: "string \<Rightarrow> byte list \<Rightarrow> string"

text \<open>Everything diskdump.js prints with \<open>printf\<close>, one constructor per format string.\<close>

datatype diag =
    ErrorMessage string
  | LengthMismatch nat nat
  | ReplacedLineEndings string nat nat
  | NonASCIIData string
  | Writing string
  | NotWritten string
  | ExistsUseOverwrite string
  | UnsuccessfullyRebuilt string

text \<open>
  What a path names in the file system: a regular file with its bytes and its mode, or
  an object that exists but that \<open>fs.readFileSync\<close> throws on (a directory, a file
  without read permission).
\<close>

datatype fsobj = RegFile (bytes: "byte list") (mode: nat) | Unreadable

text \<open>The value \<open>readFile\<close> returns: a string, or a DataBuffer.\<close>

datatype jsdata = Text jstext | DataBuffer "byte list"

text \<open>JavaScript truthiness of \<open>readFile\<close>'s result: \<open>undefined\<close> and the empty
  string are falsy, every object (a DataBuffer, also an empty one) is truthy.\<close>

fun truthy :: "jsdata option \<Rightarrow> bool" where
  "truthy None = False"
| "truthy (Some (Text s)) = (s \<noteq> [])"
| "truthy (Some (DataBuffer b)) = True"

section \<open>Text files\<close>

definition asTextFileExts :: "string list" where
  "asTextFileExts =
     [''.MD'', ''.ME'', ''.BAS'', ''.BAT'', ''.ASM'', ''.LRF'', ''.MAK'', ''.TXT'', ''.XML'']"

text \<open>\<open>String.prototype.toUpperCase\<close> and \<open>String.prototype.endsWith\<close> on names.
  The letters a to z are mapped to A to Z; every other character of a name is kept.\<close>

definition toUpperChar :: "char \<Rightarrow> char" where
  "toUpperChar c =
     (if 97 \<le> (of_char c :: nat) \<and> (of_char c :: nat) \<le> 122
      then char_of ((of_char c :: nat) - 32) else c)"

definition toUpperCase :: "string \<Rightarrow> string" where
  "toUpperCase s = map toUpperChar s"

definition endsWith :: "string \<Rightarrow> string \<Rightarrow> bool" where
  "endsWith s suffix =
     (length suffix \<le> length s \<and> drop (length s - length suffix) s = suffix)"

text \<open>The loops of \<open>isASCII\<close> and \<open>isTextFile\<close>, with their early returns.\<close>

fun isASCII :: "jstext \<Rightarrow> bool" where
  "isASCII [] = True"
| "isASCII (b # data) = (if b AND 0x80 \<noteq> 0 then False else isASCII data)"

fun isTextFile_loop :: "string \<Rightarrow> string list \<Rightarrow> bool" where
  "isTextFile_loop sFileUC [] = False"
| "isTextFile_loop sFileUC (ext # exts) =
     (if endsWith sFileUC ext then True else isTextFile_loop sFileUC exts)"

definition isTextFile :: "string \<Rightarrow> bool" where
  "isTextFile sFile = isTextFile_loop (toUpperCase sFile) asTextFileExts"

text \<open>\<open>data.replace(/\n/g, "\r\n")\<close>: every LF becomes CR LF.\<close>

fun replace_LF :: "jstext \<Rightarrow> jstext" where
  "replace_LF [] = []"
| "replace_LF (c # cs) = (if c = LF then CR # LF # replace_LF cs else c # replace_LF cs)"

text \<open>\<open>.replace(/\r+/g, "\r")\<close>: the regular expression matches a maximal run of CR
  (the quantifier is greedy), the run is replaced by one CR, and the search goes on
  behind the run.\<close>

function replace_CRs :: "jstext \<Rightarrow> jstext" where
  "replace_CRs [] = []"
| "replace_CRs (c # cs) =
     (if c = CR then CR # replace_CRs (dropWhile (\<lambda>x. x = CR) cs) else c # replace_CRs cs)"
  by pat_completeness auto
termination
  by (relation "measure length") (auto simp: length_dropWhile_le less_Suc_eq_le)

text \<open>Line 200: \<open>data.replace(/\n/g, "\r\n").replace(/\r+/g, "\r")\<close>.\<close>

definition fixLineEndings :: "jstext \<Rightarrow> jstext" where
  "fixLineEndings data = replace_CRs (replace_LF data)"

text \<open>The order the specification gives: runs of CR first, LF afterwards.\<close>

definition fixLineEndings_spec :: "jstext \<Rightarrow> jstext" where
  "fixLineEndings_spec data = replace_LF (replace_CRs data)"

section \<open>Ingesting a directory tree\<close>

text \<open>
  Modelled from the spec: \<open>DiskImage.ATTR\<close> is declared in diskimage.js, which is not
  among the sources. The spec names the attribute flags of a FileRecord: none (the
  \<open>0\<close> of line 208), volume-label and subdirectory.
\<close>

datatype attr = ATTR_NONE | ATTR_VOLUME | ATTR_SUBDIR

text \<open>
  Modelled from the spec: \<open>DiskImage.PCJS_LABEL\<close> is declared in diskimage.js; the
  comment at line 146 of diskdump.js gives its value.
\<close>

definition PCJS_LABEL :: string where
  "PCJS_LABEL = ''PCJS''"

text \<open>
  The object literal \<open>file\<close> of \<open>readDirFiles\<close>. The label record has neither
  \<open>data\<close> nor \<open>files\<close>, a file record has no \<open>files\<close>.
\<close>

datatype FileData = FileData
  (path: string) (name: string) (attr: attr) (date: nat) (file_size: int)
  (data: "byte list option") (files: "FileData list option")

text \<open>
  The directory tree that \<open>fs.readdirSync\<close> and \<open>fs.statSync\<close> show: the entries of
  a directory in the order \<open>readdirSync\<close> lists them, each with what \<open>statSync\<close>
  reports (\<open>mtime\<close>, \<open>size\<close>, \<open>isDirectory()\<close>). \<open>FsDirDenied\<close> is a directory
  that \<open>readdirSync\<close> throws on, \<open>FsDangling\<close> an entry that \<open>statSync\<close> throws on.
\<close>

datatype fsnode =
    FsFile nat nat fsobj
  | FsDir nat "(string \<times> fsnode) list"
  | FsDirDenied nat
  | FsDangling

text \<open>The exceptions of the \<open>fs\<close> calls, each with the path of the call.\<close>

datatype error =
    ReaddirError string
  | StatError string
  | UnlinkError string
  | WriteError string
  | ChmodError string
  | RenameError string
  | ReadError string

fun error_path :: "error \<Rightarrow> string" where
  "error_path (ReaddirError p) = p"
| "error_path (StatError p) = p"
| "error_path (UnlinkError p) = p"
| "error_path (WriteError p) = p"
| "error_path (ChmodError p) = p"
| "error_path (RenameError p) = p"
| "error_path (ReadError p) = p"

text \<open>The module-level variables \<open>rootDir\<close> and \<open>nMaxFiles\<close>, and what has been
  printed.\<close>

record globals =
  rootDir :: string
  nMaxFiles :: int
  printed :: "diag list"

definition printf :: "diag \<Rightarrow> globals \<Rightarrow> globals" where
  "printf d g = g\<lparr>printed := printed g @ [d]\<rparr>"

text \<open>
  \<open>readFile(sFile, encoding)\<close>, lines 260-274. The third argument is what \<open>sFile\<close>
  names in the file system (\<open>None\<close> when \<open>fs.existsSync\<close> is false); \<open>utf8\<close> is
  false for the encoding \<open>null\<close>. The message of a caught exception is not modelled,
  the diagnostic carries the path.
\<close>

definition readFile :: "env \<Rightarrow> string \<Rightarrow> fsobj option \<Rightarrow> bool \<Rightarrow> globals \<Rightarrow> jsdata option \<times> globals" where
  "readFile E sFile obj utf8 g =
     (if sFile \<noteq> [] then
        (case obj of
           None \<Rightarrow> (None, g)
         | Some Unreadable \<Rightarrow> (None, printf (ErrorMessage sFile) g)
         | Some (RegFile b m) \<Rightarrow>
             (if utf8 then (Some (Text (utf8_decode E b)), g)
              else (Some (DataBuffer b), g)))
      else (None, g))"

text \<open>
  Lines 192-211, the body of the loop for an entry that is not a directory: the record
  that is pushed, or \<open>None\<close> after the \<open>continue\<close> of line 194.
\<close>

definition readDirFiles_file ::
  "env \<Rightarrow> bool \<Rightarrow> string \<Rightarrow> string \<Rightarrow> nat \<Rightarrow> nat \<Rightarrow> fsobj \<Rightarrow> globals \<Rightarrow> FileData option \<times> globals" where
  "readDirFiles_file E fNormalize sPath sName mt ssize obj g =
     (let fText = (fNormalize \<and> isTextFile sName) in
      case readFile E sPath (Some obj) fText g of (d, g1) \<Rightarrow>
        if \<not> truthy d then (None, g1)
        else
          (case d of
             None \<Rightarrow> (None, g1)
           | Some (DataBuffer b) \<Rightarrow>
               (let g2 = (if length b \<noteq> ssize then printf (LengthMismatch (length b) ssize) g1 else g1)
                in (Some (FileData sPath sName ATTR_NONE mt (int (length b)) (Some b) None), g2))
           | Some (Text s) \<Rightarrow>
               (let g2 = (if length s \<noteq> ssize then printf (LengthMismatch (length s) ssize) g1 else g1);
                    dataNew = fixLineEndings s;
                    g3 = (if isASCII s
                          then (if dataNew \<noteq> s
                                then printf (ReplacedLineEndings sName (length s) (length dataNew)) g2
                                else g2)
                          else printf (NonASCIIData sName) g2);
                    b = DataBuffer_of_text E (if isASCII s then dataNew else s)
                in (Some (FileData sPath sName ATTR_NONE mt (int (length b)) (Some b) None), g3))))"

text \<open>
  Lines 151-171 of \<open>readDirFiles\<close>: what \<open>aFileData\<close> holds before the loop, the
  label record or nothing. \<open>sLabel0\<close> is the argument \<open>sLabel\<close>, \<open>None\<close> for
  \<open>undefined\<close>; an \<open>undefined\<close> or empty \<open>sLabel\<close> is falsy at line 161.
\<close>

definition readDirFiles_label :: "env \<Rightarrow> string \<Rightarrow> string option \<Rightarrow> FileData list" where
  "readDirFiles_label E sDir sLabel0 =
     (let sLabel = (case sLabel0 of
                      None \<Rightarrow> None
                    | Some l \<Rightarrow> if l = ''none'' then Some []
                               else if l = ''default'' then Some PCJS_LABEL
                               else Some l)
      in case sLabel of
           None \<Rightarrow> []
         | Some l \<Rightarrow> if l \<noteq> []
                    then [FileData sDir l ATTR_VOLUME (now E) 0 None None]
                    else [])"

text \<open>
  \<open>readDirFiles(sDir, fNormalize, sLabel)\<close>, lines 137-215. The second argument is the
  node that \<open>sDir\<close> names; \<open>sLabel\<close> is \<open>None\<close> for \<open>undefined\<close>.
  \<open>readDirFiles_loop\<close> is the \<open>for\<close> loop of line 173 over the entries not yet
  visited: it returns the records it pushes, in order. The loop's update
  \<open>nMaxFiles--\<close> runs after the body, also after a \<open>continue\<close>.
\<close>

function readDirFiles ::
    "env \<Rightarrow> string \<Rightarrow> fsnode \<Rightarrow> bool \<Rightarrow> string option \<Rightarrow> globals \<Rightarrow> (error + FileData list) \<times> globals"
  and readDirFiles_loop ::
    "env \<Rightarrow> string \<Rightarrow> bool \<Rightarrow> (string \<times> fsnode) list \<Rightarrow> globals \<Rightarrow> (error + FileData list) \<times> globals"
where
  "readDirFiles E sDir (FsDir mt asFiles) fNormalize sLabel0 g =
     (case readDirFiles_loop E sDir fNormalize asFiles g of
        (Inl e, g1) \<Rightarrow> (Inl e, g1)
      | (Inr aFileData, g1) \<Rightarrow> (Inr (readDirFiles_label E sDir sLabel0 @ aFileData), g1))"
| "readDirFiles E sDir (FsFile mt ssize obj) fNormalize sLabel0 g = (Inl (ReaddirError sDir), g)"
| "readDirFiles E sDir (FsDirDenied mt) fNormalize sLabel0 g = (Inl (ReaddirError sDir), g)"
| "readDirFiles E sDir FsDangling fNormalize sLabel0 g = (Inl (ReaddirError sDir), g)"
| "readDirFiles_loop E sDir fNormalize [] g = (Inr [], g)"
| "readDirFiles_loop E sDir fNormalize ((sName, node) # asFiles) g =
     (if \<not> nMaxFiles g > 0 then (Inr [], g)
      else if take 1 sName = ''.''
      then readDirFiles_loop E sDir fNormalize asFiles (g\<lparr>nMaxFiles := nMaxFiles g - 1\<rparr>)
      else
        (let sPath = path_join E sDir sName in
         case node of
           FsDangling \<Rightarrow> (Inl (StatError sPath), g)
         | FsFile mt ssize obj \<Rightarrow>
             (case readDirFiles_file E fNormalize sPath sName mt ssize obj g of
                (None, g1) \<Rightarrow>
                  readDirFiles_loop E sDir fNormalize asFiles (g1\<lparr>nMaxFiles := nMaxFiles g1 - 1\<rparr>)
              | (Some file, g1) \<Rightarrow>
                  (case readDirFiles_loop E sDir fNormalize asFiles (g1\<lparr>nMaxFiles := nMaxFiles g1 - 1\<rparr>) of
                     (Inl e, g2) \<Rightarrow> (Inl e, g2)
                   | (Inr aFileData, g2) \<Rightarrow> (Inr (file # aFileData), g2)))
         | FsDirDenied mt \<Rightarrow> (Inl (ReaddirError sPath), g)
         | FsDir mt sub \<Rightarrow>
             (case readDirFiles E sPath (FsDir mt sub) fNormalize None g of
                (Inl e, g1) \<Rightarrow> (Inl e, g1)
              | (Inr aSubFiles, g1) \<Rightarrow>
                  (let file = FileData sPath sName ATTR_SUBDIR mt (- 1) (Some []) (Some aSubFiles)
                   in case readDirFiles_loop E sDir fNormalize asFiles (g1\<lparr>nMaxFiles := nMaxFiles g1 - 1\<rparr>) of
                        (Inl e, g2) \<Rightarrow> (Inl e, g2)
                      | (Inr aFileData, g2) \<Rightarrow> (Inr (file # aFileData), g2)))))"
  by pat_completeness auto
termination
  by (relation "measure (\<lambda>x. case x of
         Inl (E, sDir, node, fN, l, g) \<Rightarrow> size node
       | Inr (E, sDir, fN, asFiles, g) \<Rightarrow> size_list (size_prod (\<lambda>x. 0) size) asFiles)") auto

text \<open>
  Lines 113-116 of \<open>readDir(sDir, fNormalize, sLabel, kbTarget, nMax)\<close>: the default
  of the label, the start value of \<open>nMaxFiles\<close> and the call of \<open>readDirFiles\<close>.
  \<open>sLabel\<close> is \<open>None\<close> for \<open>undefined\<close>, \<open>nMax\<close> is \<open>None\<close> for
  \<open>undefined\<close> and for \<open>NaN\<close> (what \<open>+argv['maxfiles']\<close> is without the option).
  The maximum is a count: \<open>nMax\<close> and \<open>nMaxFiles\<close> are integers.
\<close>

definition falsy_label :: "string option \<Rightarrow> bool" where
  "falsy_label sLabel = (case sLabel of None \<Rightarrow> True | Some l \<Rightarrow> l = [])"

definition nMax_or_256 :: "int option \<Rightarrow> int" where
  "nMax_or_256 nMax = (case nMax of None \<Rightarrow> 256 | Some n \<Rightarrow> if n = 0 then 256 else n)"

definition readDir_files ::
  "env \<Rightarrow> string \<Rightarrow> fsnode \<Rightarrow> bool \<Rightarrow> string option \<Rightarrow> int option \<Rightarrow> globals
     \<Rightarrow> (error + FileData list) \<times> globals" where
  "readDir_files E sDir node fNormalize sLabel0 nMax g =
     (let sLabel = (if falsy_label sLabel0 then Some (path_basename E sDir) else sLabel0);
          g1 = g\<lparr>nMaxFiles := nMax_or_256 nMax\<rparr>
      in readDirFiles E sDir node fNormalize sLabel g1)"

text \<open>
  The DiskImage class of diskimage.js is not among the sources; diskdump.js uses it
  through these methods. A method that changes the image returns the changed image.
  \<open>getJSON\<close> takes two flags, whether a hash function is passed and \<open>fLegacy\<close>;
  \<open>getData\<close> is \<open>None\<close> when \<open>di.getData(db)\<close> is false and the buffer's bytes
  otherwise. \<open>newDiskImage\<close> is the constructor with the name of the disk.
  \<open>buildDiskFromJSON\<close> is the image after the call and \<open>buildDiskFromJSON_ok\<close> the
  value that the call returns; \<open>buildDiskFromPSI\<close> and \<open>buildDiskFromBuffer\<close> are
  \<open>None\<close> when the call returns false and the image after the call otherwise.
\<close>

record 'di DiskImage =
  buildDiskFromFiles :: "string \<Rightarrow> FileData list \<Rightarrow> int \<Rightarrow> 'di option"
  buildDiskFromJSON :: "'di \<Rightarrow> jstext \<Rightarrow> 'di"
  getJSON :: "'di \<Rightarrow> bool \<Rightarrow> bool \<Rightarrow> jstext"
  getData :: "'di \<Rightarrow> byte list option"
  setArgs :: "'di \<Rightarrow> string \<Rightarrow> 'di"
  newDiskImage :: "string \<Rightarrow> 'di"
  buildDiskFromJSON_ok :: "'di \<Rightarrow> jstext \<Rightarrow> bool"
  buildDiskFromPSI :: "'di \<Rightarrow> byte list \<Rightarrow> 'di option"
  buildDiskFromBuffer ::
    "'di \<Rightarrow> byte list \<Rightarrow> string \<Rightarrow> bool \<Rightarrow> string option \<Rightarrow> string option \<Rightarrow> jstext option
       \<Rightarrow> 'di option"

text \<open>\<open>readDir\<close>, lines 110-127: \<open>None\<close> is the \<open>null\<close> it returns after a failure.\<close>

definition readDir ::
  "env \<Rightarrow> 'di DiskImage \<Rightarrow> string \<Rightarrow> fsnode \<Rightarrow> bool \<Rightarrow> string option \<Rightarrow> int option \<Rightarrow> int option
     \<Rightarrow> globals \<Rightarrow> 'di option \<times> globals" where
  "readDir E D sDir node fNormalize sLabel kbTarget nMax g =
     (case readDir_files E sDir node fNormalize sLabel nMax g of
        (Inl err, g1) \<Rightarrow>
          (None, printf (ErrorMessage (error_path err)) g1)
      | (Inr aFileData, g1) \<Rightarrow>
          (buildDiskFromFiles D (path_basename E sDir) aFileData
             (case kbTarget of None \<Rightarrow> 0 | Some k \<Rightarrow> k), g1))"

text \<open>Counting the records of a result, at every depth.\<close>

fun count_records :: "FileData \<Rightarrow> nat"
  and count_records_list :: "FileData list \<Rightarrow> nat" where
  "count_records (FileData p n a d s dt fs) =
     Suc (case fs of None \<Rightarrow> 0 | Some l \<Rightarrow> count_records_list l)"
| "count_records_list [] = 0"
| "count_records_list (f # l) = count_records f + count_records_list l"

text \<open>The records with a given attribute, at every depth.\<close>

fun count_attr :: "attr \<Rightarrow> FileData \<Rightarrow> nat"
  and count_attr_list :: "attr \<Rightarrow> FileData list \<Rightarrow> nat" where
  "count_attr a (FileData p n a' d s dt fs) =
     (if a' = a then 1 else 0) + (case fs of None \<Rightarrow> 0 | Some l \<Rightarrow> count_attr_list a l)"
| "count_attr_list a [] = 0"
| "count_attr_list a (f # l) = count_attr a f + count_attr_list a l"

section \<open>Writing and comparing disk images\<close>

text \<open>
  The files that \<open>writeDisk\<close>, \<open>compareDisks\<close> and the archive check work on: a store
  from paths to what they name. The \<open>fs\<close> calls on it: a call throws where the path
  is missing (\<open>unlinkSync\<close>, \<open>chmodSync\<close>, \<open>renameSync\<close>) or names an object that
  cannot be replaced (\<open>unlinkSync\<close>, \<open>writeFileSync\<close>); permissions are recorded, not
  checked.
\<close>

type_synonym fstore = "string \<Rightarrow> fsobj option"

definition existsSync :: "fstore \<Rightarrow> string \<Rightarrow> bool" where
  "existsSync fs p = (fs p \<noteq> None)"

definition unlinkSync :: "fstore \<Rightarrow> string \<Rightarrow> error + fstore" where
  "unlinkSync fs p =
     (case fs p of
        Some (RegFile b m) \<Rightarrow> Inr (fs(p := None))
      | _ \<Rightarrow> Inl (UnlinkError p))"

definition writeFileSync :: "env \<Rightarrow> fstore \<Rightarrow> string \<Rightarrow> byte list \<Rightarrow> error + fstore" where
  "writeFileSync E fs p b =
     (case fs p of
        None \<Rightarrow> Inr (fs(p \<mapsto> RegFile b (create_mode E)))
      | Some (RegFile b0 m) \<Rightarrow> Inr (fs(p \<mapsto> RegFile b m))
      | Some Unreadable \<Rightarrow> Inl (WriteError p))"

definition chmodSync :: "fstore \<Rightarrow> string \<Rightarrow> nat \<Rightarrow> error + fstore" where
  "chmodSync fs p m =
     (case fs p of
        None \<Rightarrow> Inl (ChmodError p)
      | Some (RegFile b m0) \<Rightarrow> Inr (fs(p \<mapsto> RegFile b m))
      | Some Unreadable \<Rightarrow> Inr fs)"

definition renameSync :: "fstore \<Rightarrow> string \<Rightarrow> string \<Rightarrow> error + fstore" where
  "renameSync fs old new =
     (case fs old of
        None \<Rightarrow> Inl (RenameError old)
      | Some obj \<Rightarrow> Inr ((fs(old := None))(new \<mapsto> obj)))"

text \<open>The mode \<open>0o444\<close> of line 321: read permission for everyone, write permission
  for nobody.\<close>

definition mode_444 :: nat where
  "mode_444 = 4 * 64 + 4 * 8 + 4"

text \<open>
  \<open>writeDisk(sFile, di, fLegacy, indent, fOverwrite)\<close>, lines 303-332. The name that
  line 318 prints loses the first \<open>rootDir.length\<close> characters when \<open>sFile\<close> starts
  with \<open>path.delimiter\<close>. \<open>data\<close> is
  \<open>None\<close> where the source's \<open>data\<close> is falsy: an empty JSON string, or no buffer.
  An exception of an \<open>fs\<close> call leaves the \<open>try\<close> block: the \<open>catch\<close> prints it, and
  the store stays as the calls before it left it.
\<close>

definition writeDisk ::
  "env \<Rightarrow> 'di DiskImage \<Rightarrow> string \<Rightarrow> 'di \<Rightarrow> bool \<Rightarrow> nat \<Rightarrow> bool \<Rightarrow> fstore \<times> globals
     \<Rightarrow> fstore \<times> globals" where
  "writeDisk E D sFile di fLegacy indent fOverwrite st =
     (case st of (fs, g) \<Rightarrow>
        let diskName = path_basename E sFile;
            fExists = existsSync fs sFile
        in if \<not> fExists \<or> fOverwrite then
             (let sFileUC = toUpperCase sFile;
                  data = (if endsWith sFileUC ''.JSON''
                          then (let json = getJSON D di True fLegacy
                                in if json \<noteq> [] then Some (utf8_encode E json) else None)
                          else getData D di)
              in case data of
                   Some b \<Rightarrow>
                     (let g1 = printf (Writing (if take (length (path_delimiter E)) sFile = path_delimiter E
                                                then drop (length (rootDir g)) sFile else sFile)) g
                      in case (if fExists then unlinkSync fs sFile else Inr fs) of
                           Inl err \<Rightarrow> (fs, printf (ErrorMessage (error_path err)) g1)
                         | Inr fs1 \<Rightarrow>
                             (case writeFileSync E fs1 sFile b of
                                Inl err \<Rightarrow> (fs1, printf (ErrorMessage (error_path err)) g1)
                              | Inr fs2 \<Rightarrow>
                                  if endsWith sFileUC ''.IMG''
                                  then (case chmodSync fs2 sFile mode_444 of
                                          Inl err \<Rightarrow> (fs2, printf (ErrorMessage (error_path err)) g1)
                                        | Inr fs3 \<Rightarrow> (fs3, g1))
                                  else (fs2, g1)))
                 | None \<Rightarrow> (fs, printf (NotWritten diskName) g))
           else (fs, printf (ExistsUseOverwrite diskName) g))"

text \<open>
  Modelled from the spec: \<open>DataBuffer.compare\<close> is a method of nodebuffer.js; the
  comment of \<open>compareDisks\<close> (line 40) says that it is true if the contents of the
  two buffers are equal, false otherwise.
\<close>

fun DataBuffer_compare :: "jsdata \<Rightarrow> jsdata \<Rightarrow> bool" where
  "DataBuffer_compare (DataBuffer b1) (DataBuffer b2) = (b1 = b2)"
| "DataBuffer_compare _ _ = False"

text \<open>\<open>compareDisks(sDisk1, sDisk2)\<close>, lines 42-50:
  \<open>db1 && db2 && db1.compare(db2) || false\<close>.\<close>

definition compareDisks :: "env \<Rightarrow> string \<Rightarrow> string \<Rightarrow> fstore \<times> globals \<Rightarrow> bool \<times> globals" where
  "compareDisks E sDisk1 sDisk2 st =
     (case st of (fs, g) \<Rightarrow>
        case readFile E sDisk1 (fs sDisk1) False g of (db1, g1) \<Rightarrow>
        case readFile E sDisk2 (fs sDisk2) False g1 of (db2, g2) \<Rightarrow>
          (case (db1, db2) of
             (Some d1, Some d2) \<Rightarrow> truthy db1 \<and> truthy db2 \<and> DataBuffer_compare d1 d2
           | _ \<Rightarrow> False,
           g2))"

text \<open>\<open>fs.readFileSync(sFile)\<close> on the store: it throws where the path is missing or
  names an object that cannot be read.\<close>

definition readFileSync :: "fstore \<Rightarrow> string \<Rightarrow> error + byte list" where
  "readFileSync fs p =
     (case fs p of
        Some (RegFile b m) \<Rightarrow> Inr b
      | _ \<Rightarrow> Inl (ReadError p))"

text \<open>\<open>getHash(data, type)\<close>, lines 59-68; \<open>buf\<close> is the bytes of \<open>data\<close>.\<close>

definition getHash :: "env \<Rightarrow> byte list \<Rightarrow> string \<Rightarrow> string" where
  "getHash E buf type = crypto_hash E type buf"

text \<open>
  \<open>readDisk(sFile, forceBPB, sectorIDs, sectorErrors, suppData)\<close>, lines 227-251. The
  file is read inside the \<open>try\<close> block: where \<open>fs.readFileSync\<close> throws, the
  \<open>catch\<close> prints the error and \<open>readDisk\<close> returns \<open>null\<close>. \<open>sectorIDs\<close>,
  \<open>sectorErrors\<close> and \<open>suppData\<close> are \<open>None\<close> for \<open>undefined\<close>.
\<close>

definition readDisk ::
  "env \<Rightarrow> 'di DiskImage \<Rightarrow> string \<Rightarrow> bool \<Rightarrow> string option \<Rightarrow> string option \<Rightarrow> jstext option
     \<Rightarrow> fstore \<times> globals \<Rightarrow> 'di option \<times> globals" where
  "readDisk E D sFile forceBPB sectorIDs sectorErrors suppData st =
     (case st of (fs, g) \<Rightarrow>
        let diskName = path_basename E sFile;
            di = newDiskImage D diskName
        in if endsWith diskName ''.json'' then
             (case readFileSync fs sFile of
                Inl err \<Rightarrow> (None, printf (ErrorMessage (error_path err)) g)
              | Inr b \<Rightarrow>
                  (let db = utf8_decode E b
                   in if \<not> buildDiskFromJSON_ok D di db then (None, g)
                      else (Some (buildDiskFromJSON D di db), g)))
           else
             (case readFileSync fs sFile of
                Inl err \<Rightarrow> (None, printf (ErrorMessage (error_path err)) g)
              | Inr db \<Rightarrow>
                  (let hash = getHash E db ''md5''
                   in if endsWith diskName ''.psi'' then (buildDiskFromPSI D di db, g)
                      else (buildDiskFromBuffer D di db hash forceBPB sectorIDs sectorErrors
                              suppData, g))))"

section \<open>The archive check of \<open>main\<close>\<close>

text \<open>\<open>s.indexOf(".")\<close> and \<open>s.replace(pattern, replacement)\<close> with string
  arguments: the index of the first occurrence or \<open>-1\<close>, and the replacement of the
  first occurrence only.\<close>

definition indexOf_dot :: "string \<Rightarrow> int" where
  "indexOf_dot s =
     (if CHR ''.'' \<in> set s then int (length (takeWhile (\<lambda>c. c \<noteq> CHR ''.'') s)) else - 1)"

fun replace_first :: "string \<Rightarrow> string \<Rightarrow> string \<Rightarrow> string" where
  "replace_first pat rep [] = (if pat = [] then rep else [])"
| "replace_first pat rep (c # cs) =
     (if take (length pat) (c # cs) = pat then rep @ drop (length pat) (c # cs)
      else c # replace_first pat rep cs)"

text \<open>Lines 498-501: the name of the temporary JSON file.\<close>

definition tempJSON :: "string \<Rightarrow> string" where
  "tempJSON sName =
     (let i = indexOf_dot sName
      in (if i > 0 then take (nat i) sName else sName) @ ''.json'')"

text \<open>
  Lines 497-524 of \<open>main\<close>, the part of task 3 that follows the reading of the
  archived image: \<open>diArchive\<close> is what \<open>readDir\<close> or \<open>readDisk\<close> returned
  (\<open>None\<close> for \<open>null\<close>), \<open>sName\<close> is the variable \<open>name\<close> of line 489, \<open>options\<close>
  is \<open>diskette.options\<close> and \<open>rebuild\<close> is \<open>argv['rebuild']\<close>. The \<open>fs\<close> calls of
  these lines stand in no \<open>try\<close> block: their exceptions end the run.
\<close>

definition checkArchive ::
  "env \<Rightarrow> 'di DiskImage \<Rightarrow> string \<Rightarrow> string \<Rightarrow> string \<Rightarrow> string \<Rightarrow> string \<Rightarrow> bool \<Rightarrow> 'di option
     \<Rightarrow> fstore \<times> globals \<Rightarrow> error + (fstore \<times> globals)" where
  "checkArchive E D sFile sArchiveFile sName command options rebuild diArchive0 st =
     (case diArchive0 of
        None \<Rightarrow> Inr st
      | Some di0 \<Rightarrow>
          (let sTempJSON = tempJSON sName;
               di1 = setArgs D di0 (command @ '' --output '' @ sTempJSON @ options);
               st1 = writeDisk E D sTempJSON di1 False 0 True st
           in if endsWith sArchiveFile ''.img'' then
                (let json = getJSON D di1 False False;
                     di2 = buildDiskFromJSON D di1 json;
                     sTempIMG = replace_first ''.json'' ''.img'' sTempJSON;
                     st2 = writeDisk E D sTempIMG di2 False 0 True st1
                 in case compareDisks E sTempIMG sArchiveFile st2 of
                      (False, g3) \<Rightarrow> Inr (fst st2, printf (UnsuccessfullyRebuilt sArchiveFile) g3)
                    | (True, g3) \<Rightarrow>
                        (case unlinkSync (fst st2) sTempIMG of
                           Inl err \<Rightarrow> Inl err
                         | Inr fs3 \<Rightarrow>
                             (if rebuild
                              then (case renameSync fs3 sTempJSON sFile of
                                      Inl err \<Rightarrow> Inl err
                                    | Inr fs4 \<Rightarrow> Inr (fs4, g3))
                              else (case unlinkSync fs3 sTempJSON of
                                      Inl err \<Rightarrow> Inl err
                                    | Inr fs4 \<Rightarrow> Inr (fs4, g3)))))
              else
                (if rebuild
                 then (case renameSync (fst st1) sTempJSON sFile of
                         Inl err \<Rightarrow> Inl err
                       | Inr fs4 \<Rightarrow> Inr (fs4, snd st1))
                 else (case unlinkSync (fst st1) sTempJSON of
                         Inl err \<Rightarrow> Inl err
                       | Inr fs4 \<Rightarrow> Inr (fs4, snd st1)))))"

text \<open>
  Lines 489-524 of \<open>main\<close>: the archived image is read, by \<open>readDir\<close> where
  \<open>sArchiveFile\<close> ends in a slash and by \<open>readDisk\<close> otherwise, and the check of lines
  497-524 follows. \<open>tree\<close> is the directory tree that \<open>sArchiveFile\<close> names for
  \<open>readDir\<close>; \<open>sectorIDs\<close>, \<open>sectorErrors\<close> and \<open>suppData\<close> are the variables
  of lines 485-488.
\<close>

definition readAndCheckArchive ::
  "env \<Rightarrow> 'di DiskImage \<Rightarrow> string \<Rightarrow> string \<Rightarrow> fsnode \<Rightarrow> string \<Rightarrow> bool
     \<Rightarrow> string option \<Rightarrow> string option \<Rightarrow> jstext option
     \<Rightarrow> fstore \<times> globals \<Rightarrow> error + (fstore \<times> globals)" where
  "readAndCheckArchive E D sFile sArchiveFile tree options rebuild sectorIDs sectorErrors suppData st =
     (let sName = path_basename E sArchiveFile
      in if endsWith sArchiveFile ''/'' then
           (case readDir E D sArchiveFile tree False None None None (snd st) of
              (diArchive, g1) \<Rightarrow>
                checkArchive E D sFile sArchiveFile sName (''--dir '' @ sName) options rebuild
                  diArchive (fst st, g1))
         else
           (case readDisk E D sArchiveFile False sectorIDs sectorErrors suppData st of
              (diArchive, g1) \<Rightarrow>
                checkArchive E D sFile sArchiveFile sName (''--disk '' @ sName) options rebuild
                  diArchive (fst st, g1)))"

section \<open>Definitions that the properties are stated with\<close>

text \<open>
  A string all of whose line terminators are CR LF: every CR is followed by an LF, and
  every LF follows a CR.
\<close>

fun all_CRLF :: "jstext \<Rightarrow> bool" where
  "all_CRLF [] = True"
| "all_CRLF (c # cs) =
     (if c = CR then (case cs of [] \<Rightarrow> False | d # ds \<Rightarrow> d = LF \<and> all_CRLF ds)
      else c \<noteq> LF \<and> all_CRLF cs)"

text \<open>
  The same properties of a string that follows a character which is a CR (\<open>p\<close>) or is
  not: every LF stands behind a CR, and, for the normal form, no CR stands behind a CR.
  \<open>replace_CRs_after\<close> is \<open>replace_CRs\<close> inside a run of CR (\<open>p\<close>) or outside.
\<close>

fun LF_after_CR :: "bool \<Rightarrow> jstext \<Rightarrow> bool" where
  "LF_after_CR p [] = True"
| "LF_after_CR p (c # cs) = ((c = LF \<longrightarrow> p) \<and> LF_after_CR (c = CR) cs)"

fun normal_form :: "bool \<Rightarrow> jstext \<Rightarrow> bool" where
  "normal_form p [] = True"
| "normal_form p (c # cs) = ((c = LF \<longrightarrow> p) \<and> (c = CR \<longrightarrow> \<not> p) \<and> normal_form (c = CR) cs)"

fun replace_CRs_after :: "bool \<Rightarrow> jstext \<Rightarrow> jstext" where
  "replace_CRs_after p [] = []"
| "replace_CRs_after p (c # cs) =
     (if c = CR then (if p then replace_CRs_after True cs else CR # replace_CRs_after True cs)
      else c # replace_CRs_after False cs)"

text \<open>
  A concrete environment to run the model in: the decoder and the encoders map a byte to
  the code unit of the same value and back (what UTF-8 does below 0x80), a path is
  joined with a slash, the base name is what follows the last slash, new files get the
  mode 0o644, and every digest is the empty string.
\<close>

definition test_env :: env where
  "test_env =
     \<lparr> utf8_decode = map ucast, utf8_encode = map ucast, DataBuffer_of_text = map ucast,
       path_join = (\<lambda>d n. d @ ''/'' @ n),
       path_basename = (\<lambda>p. rev (takeWhile (\<lambda>c. c \<noteq> CHR ''/'') (rev p))),
       path_delimiter = '':'', create_mode = 420, now = 0,
       crypto_hash = (\<lambda>type b. []) \<rparr>"

definition g0 :: globals where
  "g0 = \<lparr> rootDir = ''/pcjs'', nMaxFiles = 0, printed = [] \<rparr>"


text \<open>
  What a walk that starts with the globals \<open>g\<close>, pushes the records \<open>recs\<close> and
  ends with the globals \<open>g'\<close> has done to the budget: the file records, at every
  depth, fit into what was left of the budget; every record, file or directory, has
  taken one unit of the counter; and no record is a volume label.
\<close>

definition walk_inv :: "globals \<Rightarrow> FileData list \<Rightarrow> globals \<Rightarrow> bool" where
  "walk_inv g recs g' \<longleftrightarrow>
     int (count_attr_list ATTR_NONE recs) + max 0 (nMaxFiles g') \<le> max 0 (nMaxFiles g)
     \<and> int (count_records_list recs) \<le> nMaxFiles g - nMaxFiles g'
     \<and> count_attr_list ATTR_VOLUME recs = 0"

text \<open>Trees to run the model on.\<close>

definition file_A :: fsnode where
  "file_A = FsFile 0 1 (RegFile [65] 420)"

definition flat_tree :: fsnode where
  "flat_tree = FsDir 0 [(''a'', file_A), (''b'', file_A), (''c'', file_A)]"


definition hidden_tree :: fsnode where
  "hidden_tree = FsDir 0 [(''.h'', file_A), (''a'', file_A), (''b'', file_A)]"

text \<open>
  Line 508, the name of the temporary binary image, and the store and the globals as
  the two \<open>writeDisk\<close> calls of lines 503 and 509 leave them.
\<close>

definition tempIMG :: "string \<Rightarrow> string" where
  "tempIMG sName = replace_first ''.json'' ''.img'' (tempJSON sName)"

definition after_writes ::
  "env \<Rightarrow> 'di DiskImage \<Rightarrow> string \<Rightarrow> string \<Rightarrow> string \<Rightarrow> 'di \<Rightarrow> fstore \<times> globals \<Rightarrow> fstore \<times> globals" where
  "after_writes E D sName command options di0 st =
     (let di1 = setArgs D di0 (command @ '' --output '' @ tempJSON sName @ options);
          st1 = writeDisk E D (tempJSON sName) di1 False 0 True st;
          di2 = buildDiskFromJSON D di1 (getJSON D di1 False False)
      in writeDisk E D (tempIMG sName) di2 False 0 True st1)"

text \<open>The mode bits \<open>0o222\<close>: write permission for the owner, the group or the others.\<close>

definition write_bits :: nat where
  "write_bits = 2 * 64 + 2 * 8 + 2"

text \<open>An object that \<open>readFile\<close> gets no data from: a missing or an unreadable one.\<close>

fun not_readable :: "fsobj option \<Rightarrow> bool" where
  "not_readable (Some (RegFile b m)) = False"
| "not_readable _ = True"

text \<open>
  A disk image to run the model on: the image is its bytes, its JSON text is "{}",
  rebuilding it from the JSON text gives the same image, and building it from a buffer
  gives the bytes of the buffer. A catalog entry: the canonical
  JSON file, and an archived image that differs from the bytes [1, 2, 3] in the last
  byte.
\<close>

definition test_image :: "byte list DiskImage" where
  "test_image =
     \<lparr> buildDiskFromFiles = (\<lambda>n fs k. None), buildDiskFromJSON = (\<lambda>d j. d),
       getJSON = (\<lambda>d h l. [0x7B, 0x7D]), getData = Some, setArgs = (\<lambda>d a. d),
       newDiskImage = (\<lambda>n. []), buildDiskFromJSON_ok = (\<lambda>d j. True),
       buildDiskFromPSI = (\<lambda>d b. Some b),
       buildDiskFromBuffer = (\<lambda>d b h f i e s. Some b) \<rparr>"

definition canonical_json :: string where
  "canonical_json = ''/pcjs/disks/DISK1.json''"

definition archived_img :: string where
  "archived_img = ''/pcjs/disks/archive/DISK1.img''"

definition store0 :: fstore where
  "store0 = [canonical_json \<mapsto> RegFile [1] 420, archived_img \<mapsto> RegFile [1, 2, 4] 292]"

text \<open>
  The catalog entry without its archived image, and with an object at the path of the
  temporary binary that can neither be replaced nor read.
\<close>

definition store_no_archive :: fstore where
  "store_no_archive = [canonical_json \<mapsto> RegFile [1] 420]"

definition store_blocked_temp :: fstore where
  "store_blocked_temp =
     [canonical_json \<mapsto> RegFile [1] 420, archived_img \<mapsto> RegFile [1, 2, 3] 292,
      ''DISK1.img'' \<mapsto> Unreadable]"

(* PROPERTIES *)

section \<open>Line endings\<close>

lemma lt_0x80_bit7: "(c::16 word) < 0x80 \<Longrightarrow> c AND 0x80 = 0"
proof -
  assume "c < 0x80"
  then have "c < 2 ^ 7" by simp
  then have "c AND mask 7 = c" by (rule less_mask_eq)
  then have "take_bit 7 c = c" by (simp add: take_bit_eq_mask)
  then have "\<not> bit c 7" by (metis bit_take_bit_iff less_irrefl)
  then have "c AND 2 ^ 7 = 0" by (rule iffD2 [OF and_exp_eq_0_iff_not_bit])
  then show ?thesis by simp
qed

lemma isASCII_iff: "isASCII s \<longleftrightarrow> (\<forall>c\<in>set s. c AND 0x80 = 0)"
  by (induction s) auto

lemma isASCII_7bit: "\<forall>c\<in>set s. c < 0x80 \<Longrightarrow> isASCII s"
  by (simp add: isASCII_iff lt_0x80_bit7)

lemma replace_CRs_after_eq:
  "replace_CRs_after True t = replace_CRs (dropWhile (\<lambda>x. x = CR) t)
   \<and> replace_CRs_after False t = replace_CRs t"
  by (induction t) auto

lemma LF_after_CR_replace_LF: "LF_after_CR p (replace_LF t)"
  by (induction t arbitrary: p) (auto simp: CR_def LF_def)

lemma normal_form_replace_CRs:
  "LF_after_CR p t \<Longrightarrow> normal_form p (replace_CRs_after p t)"
  by (induction t arbitrary: p) (auto simp: CR_def LF_def)

lemma normal_form_fixed:
  "normal_form p s \<Longrightarrow> replace_CRs_after p (replace_LF s) = s"
  by (induction s arbitrary: p) (auto simp: CR_def LF_def)

lemma all_CRLF_normal_form: "all_CRLF s \<Longrightarrow> normal_form False s"
  by (induction s rule: all_CRLF.induct) (auto simp: CR_def LF_def split: list.splits if_splits)

lemma fixLineEndings_normal_form: "normal_form False (fixLineEndings s)"
  using normal_form_replace_CRs [OF LF_after_CR_replace_LF, of False s]
  by (simp add: fixLineEndings_def replace_CRs_after_eq)

lemma fixLineEndings_fixed: "normal_form False s \<Longrightarrow> fixLineEndings s = s"
  using normal_form_fixed [of False s] by (simp add: fixLineEndings_def replace_CRs_after_eq)

text \<open>
  C3, as the code has it. With normalization on, a file with a text extension whose
  decoded content is not empty: when every code unit is below 0x80, the content becomes
  \<open>fixLineEndings\<close> of it, that is every LF is expanded to CR LF first and every run of
  CR is collapsed to one CR afterwards, and the "replaced line endings" diagnostic is
  printed exactly when the content changed; when a code unit has bit 7 set, the content
  stays as it is and the "non-ASCII data" diagnostic is printed.
\<close>

theorem normalize_text_file:
  assumes "fNormalize" and "isTextFile sName" and "sPath \<noteq> []"
    and "s = utf8_decode E b" and "s \<noteq> []"
  shows "((\<forall>c\<in>set s. c < 0x80) \<longrightarrow>
           readDirFiles_file E fNormalize sPath sName mt ssize (RegFile b m) g =
             (Some (FileData sPath sName ATTR_NONE mt
                      (int (length (DataBuffer_of_text E (fixLineEndings s))))
                      (Some (DataBuffer_of_text E (fixLineEndings s))) None),
              g\<lparr>printed := printed g
                   @ (if length s \<noteq> ssize then [LengthMismatch (length s) ssize] else [])
                   @ (if fixLineEndings s \<noteq> s
                      then [ReplacedLineEndings sName (length s) (length (fixLineEndings s))]
                      else [])\<rparr>))
       \<and> ((\<exists>c\<in>set s. c AND 0x80 \<noteq> 0) \<longrightarrow>
           readDirFiles_file E fNormalize sPath sName mt ssize (RegFile b m) g =
             (Some (FileData sPath sName ATTR_NONE mt
                      (int (length (DataBuffer_of_text E s)))
                      (Some (DataBuffer_of_text E s)) None),
              g\<lparr>printed := printed g
                   @ (if length s \<noteq> ssize then [LengthMismatch (length s) ssize] else [])
                   @ [NonASCIIData sName]\<rparr>))"
proof (intro conjI impI)
  assume "\<forall>c\<in>set s. c < 0x80"
  then have "isASCII s" by (rule isASCII_7bit)
  with assms show "readDirFiles_file E fNormalize sPath sName mt ssize (RegFile b m) g =
             (Some (FileData sPath sName ATTR_NONE mt
                      (int (length (DataBuffer_of_text E (fixLineEndings s))))
                      (Some (DataBuffer_of_text E (fixLineEndings s))) None),
              g\<lparr>printed := printed g
                   @ (if length s \<noteq> ssize then [LengthMismatch (length s) ssize] else [])
                   @ (if fixLineEndings s \<noteq> s
                      then [ReplacedLineEndings sName (length s) (length (fixLineEndings s))]
                      else [])\<rparr>)"
    by (simp add: readDirFiles_file_def readFile_def printf_def Let_def)
next
  assume "\<exists>c\<in>set s. c AND 0x80 \<noteq> 0"
  then have "\<not> isASCII s" by (simp add: isASCII_iff)
  with assms show "readDirFiles_file E fNormalize sPath sName mt ssize (RegFile b m) g =
             (Some (FileData sPath sName ATTR_NONE mt
                      (int (length (DataBuffer_of_text E s)))
                      (Some (DataBuffer_of_text E s)) None),
              g\<lparr>printed := printed g
                   @ (if length s \<noteq> ssize then [LengthMismatch (length s) ssize] else [])
                   @ [NonASCIIData sName]\<rparr>)"
    by (simp add: readDirFiles_file_def readFile_def printf_def Let_def)
qed

text \<open>The theorem at the content "A LF" (normalized to "A CR LF", with the diagnostic)
  and at a content with the code unit 0xE9 (kept, with the other diagnostic).\<close>

theorem normalize_text_file_witness:
  "readDirFiles_file test_env True ''d/A.TXT'' ''A.TXT'' 0 2 (RegFile [65, 10] 420) g0 =
     (Some (FileData ''d/A.TXT'' ''A.TXT'' ATTR_NONE 0 3 (Some [65, 13, 10]) None),
      g0\<lparr>printed := [ReplacedLineEndings ''A.TXT'' 2 3]\<rparr>)
   \<and> readDirFiles_file test_env True ''d/A.TXT'' ''A.TXT'' 0 2 (RegFile [233, 10] 420) g0 =
     (Some (FileData ''d/A.TXT'' ''A.TXT'' ATTR_NONE 0 2 (Some [233, 10]) None),
      g0\<lparr>printed := [NonASCIIData ''A.TXT'']\<rparr>)"
proof -
  have t: "isTextFile ''A.TXT''" by code_simp
  have d1: "utf8_decode test_env [65, 10] = [65, 10]" by (simp add: test_env_def)
  have d2: "utf8_decode test_env [233, 10] = [233, 10]" by (simp add: test_env_def)
  have f1: "fixLineEndings [65, 10] = [65, 13, 10]"
    by (simp add: fixLineEndings_def CR_def LF_def)
  have e1: "DataBuffer_of_text test_env [65, 13, 10] = [65, 13, 10]" by (simp add: test_env_def)
  have e2: "DataBuffer_of_text test_env [233, 10] = [233, 10]" by (simp add: test_env_def)
  show ?thesis
    using normalize_text_file [OF TrueI t, of "''d/A.TXT''" "[65, 10]" test_env "[65, 10]" 0 2 420 g0]
          normalize_text_file [OF TrueI t, of "''d/A.TXT''" "[233, 10]" test_env "[233, 10]" 0 2 420 g0]
    by (simp add: d1 d2 f1 e1 e2 g0_def)
qed

text \<open>
  C3 as the specification words it fails twice. The content "CR LF" is kept by the code,
  while collapsing the runs of CR first and expanding each LF afterwards gives
  "CR CR LF". The content "LF CR CR" becomes "CR LF CR": the diagnostic is printed
  although the length, 3, did not change.
\<close>

theorem normalize_order_counterexample:
  "readDirFiles_file test_env True ''d/A.TXT'' ''A.TXT'' 0 2 (RegFile [13, 10] 420) g0 =
     (Some (FileData ''d/A.TXT'' ''A.TXT'' ATTR_NONE 0 2 (Some [13, 10]) None), g0)
   \<and> DataBuffer_of_text test_env (fixLineEndings_spec (utf8_decode test_env [13, 10])) = [13, 13, 10]
   \<and> readDirFiles_file test_env True ''d/A.TXT'' ''A.TXT'' 0 3 (RegFile [10, 13, 13] 420) g0 =
     (Some (FileData ''d/A.TXT'' ''A.TXT'' ATTR_NONE 0 3 (Some [13, 10, 13]) None),
      g0\<lparr>printed := [ReplacedLineEndings ''A.TXT'' 3 3]\<rparr>)"
  by code_simp

text \<open>
  C4. Normalizing a 7-bit clean string all of whose line terminators are CR LF already
  gives the same string; and normalizing any string a second time gives what the first
  normalization gave.
\<close>

theorem normalize_idempotent_on_CRLF:
  "(isASCII s \<and> all_CRLF s \<longrightarrow> fixLineEndings s = s)
   \<and> fixLineEndings (fixLineEndings s) = fixLineEndings s"
  by (simp add: fixLineEndings_fixed all_CRLF_normal_form fixLineEndings_normal_form)

theorem normalize_idempotent_on_CRLF_witness:
  "isASCII [0x41, CR, LF, 0x42, CR, LF] \<and> all_CRLF [0x41, CR, LF, 0x42, CR, LF]
   \<and> fixLineEndings [0x41, CR, LF, 0x42, CR, LF] = [0x41, CR, LF, 0x42, CR, LF]"
  using normalize_idempotent_on_CRLF [of "[0x41, CR, LF, 0x42, CR, LF]"]
  by (simp add: CR_def LF_def)

section \<open>The walk and its budget\<close>

lemma file_step_Some:
  "readDirFiles_file E fN sPath sName mt ssize obj g = (Some f, g1) \<Longrightarrow>
     attr f = ATTR_NONE \<and> files f = None \<and> nMaxFiles g1 = nMaxFiles g"
  by (auto simp: readDirFiles_file_def readFile_def printf_def Let_def
           split: if_splits option.splits jsdata.splits fsobj.splits prod.splits)

lemma file_step_None:
  "readDirFiles_file E fN sPath sName mt ssize obj g = (None, g1) \<Longrightarrow> nMaxFiles g1 = nMaxFiles g"
  by (auto simp: readDirFiles_file_def readFile_def printf_def Let_def
           split: if_splits option.splits jsdata.splits fsobj.splits prod.splits)

lemma count_file_record:
  "attr f = ATTR_NONE \<Longrightarrow> files f = None \<Longrightarrow>
     count_attr ATTR_NONE f = 1 \<and> count_attr ATTR_VOLUME f = 0 \<and> count_records f = 1"
  by (cases f) simp

lemma label_counts:
  "count_attr_list ATTR_NONE (readDirFiles_label E sDir l) = 0"
  "count_records_list (readDirFiles_label E sDir l) = count_attr_list ATTR_VOLUME (readDirFiles_label E sDir l)"
  "count_attr_list ATTR_VOLUME (readDirFiles_label E sDir l) \<le> 1"
  by (auto simp: readDirFiles_label_def Let_def split: option.splits)

lemma count_attr_list_append: "count_attr_list a (xs @ ys) = count_attr_list a xs + count_attr_list a ys"
  by (induction xs) auto
lemma count_records_list_append: "count_records_list (xs @ ys) = count_records_list xs + count_records_list ys"
  by (induction xs) auto

lemma walk_invariant:
  "\<forall>recs g'. readDirFiles E sDir node fN sLabel g = (Inr recs, g') \<longrightarrow>
      (\<exists>rest. recs = readDirFiles_label E sDir sLabel @ rest \<and> walk_inv g rest g')"
  "\<forall>recs g'. readDirFiles_loop E sDir fN asFiles g = (Inr recs, g') \<longrightarrow> walk_inv g recs g'"
proof (induction E sDir node fN sLabel g and E sDir fN asFiles g rule: readDirFiles_readDirFiles_loop.induct)
  case (1 E sDir mt asFiles fNormalize sLabel0 g)
  then show ?case by (auto split: prod.splits sum.splits)
next
  case (2 E sDir mt ssize obj fNormalize sLabel0 g)
  then show ?case by simp
next
  case (3 E sDir mt fNormalize sLabel0 g)
  then show ?case by simp
next
  case (4 E sDir fNormalize sLabel0 g)
  then show ?case by simp
next
  case (5 E sDir fNormalize g)
  then show ?case by (simp add: walk_inv_def)
next
  case (6 E sDir fNormalize sName node asFiles g)
  show ?case
  proof (intro allI impI)
    fix recs g'
    assume run: "readDirFiles_loop E sDir fNormalize ((sName, node) # asFiles) g = (Inr recs, g')"
    show "walk_inv g recs g'"
    proof (cases "nMaxFiles g > 0")
      case False
      with run show ?thesis by (auto simp: walk_inv_def)
    next
      case pos: True
      show ?thesis
      proof (cases "take 1 sName = ''.''")
        case True
        with pos run have "readDirFiles_loop E sDir fNormalize asFiles (g\<lparr>nMaxFiles := nMaxFiles g - 1\<rparr>) = (Inr recs, g')"
          by simp
        with 6(1) pos True have "walk_inv (g\<lparr>nMaxFiles := nMaxFiles g - 1\<rparr>) recs g'" by simp
        then show ?thesis by (auto simp: walk_inv_def)
      next
        case vis: False
        show ?thesis
        proof (cases node)
          case (FsFile mt ssize obj)
          obtain r g1 where step: "readDirFiles_file E fNormalize (path_join E sDir sName) sName mt ssize obj g = (r, g1)"
            by (cases "readDirFiles_file E fNormalize (path_join E sDir sName) sName mt ssize obj g")
          show ?thesis
          proof (cases r)
            case None
            with FsFile step pos vis run
            have "readDirFiles_loop E sDir fNormalize asFiles (g1\<lparr>nMaxFiles := nMaxFiles g1 - 1\<rparr>) = (Inr recs, g')"
              by simp
            with 6(2) [OF _ vis refl FsFile step [symmetric] None] pos
            have "walk_inv (g1\<lparr>nMaxFiles := nMaxFiles g1 - 1\<rparr>) recs g'" by simp
            with file_step_None [OF step [unfolded None]] show ?thesis
              by (auto simp: walk_inv_def)
          next
            case (Some f)
            with FsFile step pos vis run obtain rest where
              rest: "readDirFiles_loop E sDir fNormalize asFiles (g1\<lparr>nMaxFiles := nMaxFiles g1 - 1\<rparr>) = (Inr rest, g')"
              and recs: "recs = f # rest"
              by (auto split: prod.splits sum.splits)
            with 6(3) [OF _ vis refl FsFile step [symmetric] Some] pos
            have "walk_inv (g1\<lparr>nMaxFiles := nMaxFiles g1 - 1\<rparr>) rest g'" by simp
            with file_step_Some [OF step [unfolded Some]] recs pos show ?thesis
              by (auto simp: walk_inv_def count_file_record)
          qed
        next
          case (FsDir mt sub)
          with pos vis run obtain aSub g1 rest where
            sub: "readDirFiles E (path_join E sDir sName) (FsDir mt sub) fNormalize None g = (Inr aSub, g1)"
            and rest: "readDirFiles_loop E sDir fNormalize asFiles (g1\<lparr>nMaxFiles := nMaxFiles g1 - 1\<rparr>) = (Inr rest, g')"
            and recs: "recs = FileData (path_join E sDir sName) sName ATTR_SUBDIR mt (- 1) (Some []) (Some aSub) # rest"
            by (auto simp: Let_def split: prod.splits sum.splits)
          from 6(4) [OF _ vis refl FsDir] pos sub have i1: "walk_inv g aSub g1"
            by (auto simp: readDirFiles_label_def)
          from 6(5) [OF _ vis refl FsDir sub [symmetric] refl refl] pos rest
          have i2: "walk_inv (g1\<lparr>nMaxFiles := nMaxFiles g1 - 1\<rparr>) rest g'" by simp
          from i1 i2 recs show ?thesis by (auto simp: walk_inv_def)
        next
          case (FsDirDenied mt)
          with pos vis run show ?thesis by simp
        next
          case FsDangling
          with pos vis run show ?thesis by simp
        qed
      qed
    qed
  qed
qed




lemma readDir_files_split:
  assumes "readDir_files E sDir node fN sLabel nMax g = (Inr recs, g')"
  shows "\<exists>rest. recs = readDirFiles_label E sDir (if falsy_label sLabel then Some (path_basename E sDir) else sLabel) @ rest
            \<and> walk_inv (g\<lparr>nMaxFiles := nMax_or_256 nMax\<rparr>) rest g'"
  using assms walk_invariant(1) [of E sDir node fN "if falsy_label sLabel then Some (path_basename E sDir) else sLabel" "g\<lparr>nMaxFiles := nMax_or_256 nMax\<rparr>"]
  by (simp add: readDir_files_def Let_def)




text \<open>
  C9. An entry whose name starts with a dot, and a file that cannot be read, take one
  unit of the counter and push no record. With a budget of 2, the directory with the
  entries \<open>.h\<close>, \<open>a\<close> and \<open>b\<close> gives the record of \<open>a\<close> alone: fewer records than
  the budget, and \<open>b\<close> is left out, the counter being 0.
\<close>

theorem budget_spent_without_record:
  "(0 < nMaxFiles g \<and> take 1 sName = ''.'' \<longrightarrow>
      readDirFiles_loop E sDir fN ((sName, node) # asFiles) g =
        readDirFiles_loop E sDir fN asFiles (g\<lparr>nMaxFiles := nMaxFiles g - 1\<rparr>))
   \<and> (0 < nMaxFiles g \<and> take 1 sName \<noteq> ''.'' \<and> path_join E sDir sName \<noteq> [] \<longrightarrow>
      readDirFiles_loop E sDir fN ((sName, FsFile mt ssize Unreadable) # asFiles) g =
        readDirFiles_loop E sDir fN asFiles
          ((printf (ErrorMessage (path_join E sDir sName)) g)\<lparr>nMaxFiles := nMaxFiles g - 1\<rparr>))
   \<and> readDir_files test_env ''r'' hidden_tree False (Some ''none'') (Some 2) g0 =
       (Inr [FileData ''r/a'' ''a'' ATTR_NONE 0 1 (Some [65]) None], g0\<lparr>nMaxFiles := 0\<rparr>)"
proof (intro conjI impI)
  show "readDir_files test_env ''r'' hidden_tree False (Some ''none'') (Some 2) g0 =
       (Inr [FileData ''r/a'' ''a'' ATTR_NONE 0 1 (Some [65]) None], g0\<lparr>nMaxFiles := 0\<rparr>)"
    by code_simp
qed (simp_all add: readDirFiles_file_def readFile_def printf_def Let_def)

theorem budget_spent_without_record_witness:
  "readDirFiles_loop test_env ''r'' False [(''.h'', file_A), (''a'', file_A)] (g0\<lparr>nMaxFiles := 1\<rparr>) =
      readDirFiles_loop test_env ''r'' False [(''a'', file_A)] (g0\<lparr>nMaxFiles := 0\<rparr>)
   \<and> readDirFiles_loop test_env ''r'' False [(''u'', FsFile 0 1 Unreadable), (''a'', file_A)] (g0\<lparr>nMaxFiles := 1\<rparr>) =
      readDirFiles_loop test_env ''r'' False [(''a'', file_A)] (g0\<lparr>nMaxFiles := 0, printed := [ErrorMessage ''r/u'']\<rparr>)
   \<and> readDirFiles_loop test_env ''r'' False [(''a'', file_A)] (g0\<lparr>nMaxFiles := 0\<rparr>) = (Inr [], g0\<lparr>nMaxFiles := 0\<rparr>)"
  using budget_spent_without_record [of "g0\<lparr>nMaxFiles := 1\<rparr>" "''.h''" test_env "''r''" False file_A "[(''a'', file_A)]"]
        budget_spent_without_record [of "g0\<lparr>nMaxFiles := 1\<rparr>" "''u''" test_env "''r''" False file_A "[(''a'', file_A)]" 0 1]
  by (simp add: g0_def test_env_def printf_def)

section \<open>Empty text files\<close>

lemma empty_file_step:
  assumes "utf8_decode E [] = []" and "sPath \<noteq> []"
  shows "readDirFiles_file E fN sPath sName mt ssize (RegFile [] m) g =
           (if fN \<and> isTextFile sName then (None, g)
            else (Some (FileData sPath sName ATTR_NONE mt 0 (Some []) None),
                  if ssize \<noteq> 0 then printf (LengthMismatch 0 ssize) g else g))"
  using assms by (simp add: readDirFiles_file_def readFile_def Let_def)

text \<open>
  C8. An empty file, met by the loop with budget left: with normalization on and a text
  extension, the loop goes on as if the entry were not there, nothing is printed and no
  record is pushed; otherwise the record of the file, of size 0, is pushed.
\<close>

theorem empty_text_file_dropped_loop:
  assumes "utf8_decode E [] = []" and "path_join E sDir sName \<noteq> []"
    and "0 < nMaxFiles g" and "take 1 sName \<noteq> ''.''"
  shows "readDirFiles_loop E sDir fN ((sName, FsFile mt ssize (RegFile [] m)) # asFiles) g =
     (if fN \<and> isTextFile sName
      then readDirFiles_loop E sDir fN asFiles (g\<lparr>nMaxFiles := nMaxFiles g - 1\<rparr>)
      else case readDirFiles_loop E sDir fN asFiles
                  ((if ssize \<noteq> 0 then printf (LengthMismatch 0 ssize) g else g)
                     \<lparr>nMaxFiles := nMaxFiles g - 1\<rparr>) of
             (Inl e, g2) \<Rightarrow> (Inl e, g2)
           | (Inr aFileData, g2) \<Rightarrow>
               (Inr (FileData (path_join E sDir sName) sName ATTR_NONE mt 0 (Some []) None
                       # aFileData), g2))"
  using assms empty_file_step [of E "path_join E sDir sName" fN sName mt ssize m g]
  by (simp add: printf_def)

theorem empty_text_file_dropped_loop_witness:
  "readDirFiles_loop test_env ''r'' True [(''E.TXT'', FsFile 0 0 (RegFile [] 420))] (g0\<lparr>nMaxFiles := 5\<rparr>) =
     (Inr [], g0\<lparr>nMaxFiles := 4\<rparr>)
   \<and> readDirFiles_loop test_env ''r'' False [(''E.TXT'', FsFile 0 0 (RegFile [] 420))] (g0\<lparr>nMaxFiles := 5\<rparr>) =
     (Inr [FileData ''r/E.TXT'' ''E.TXT'' ATTR_NONE 0 0 (Some []) None], g0\<lparr>nMaxFiles := 4\<rparr>)
   \<and> readDirFiles_loop test_env ''r'' True [(''E.BIN'', FsFile 0 0 (RegFile [] 420))] (g0\<lparr>nMaxFiles := 5\<rparr>) =
     (Inr [FileData ''r/E.BIN'' ''E.BIN'' ATTR_NONE 0 0 (Some []) None], g0\<lparr>nMaxFiles := 4\<rparr>)"
proof -
  have d: "utf8_decode test_env [] = []" by (simp add: test_env_def)
  have p1: "path_join test_env ''r'' ''E.TXT'' \<noteq> []" and p2: "path_join test_env ''r'' ''E.BIN'' \<noteq> []"
    by (simp_all add: test_env_def)
  have n: "0 < nMaxFiles (g0\<lparr>nMaxFiles := 5\<rparr>)" by simp
  have v1: "take 1 ''E.TXT'' \<noteq> ''.''" and v2: "take 1 ''E.BIN'' \<noteq> ''.''" by simp_all
  have t1: "isTextFile ''E.TXT''" and t2: "\<not> isTextFile ''E.BIN''" by code_simp+
  show ?thesis
    using empty_text_file_dropped_loop [OF d p1 n v1, of True 0 0 420 "[]"]
          empty_text_file_dropped_loop [OF d p1 n v1, of False 0 0 420 "[]"]
          empty_text_file_dropped_loop [OF d p2 n v2, of True 0 0 420 "[]"]
    by (simp add: t1 t2 g0_def test_env_def)
qed

section \<open>The volume label\<close>

text \<open>
  C5. The label "none" gives no label record, "default" gives the label \<open>PCJS_LABEL\<close>,
  any other non-empty label is used as it is, and without a label \<open>readDir\<close> goes on
  with the base name of the directory as the label. The label record has the attribute
  \<open>ATTR_VOLUME\<close> and the size 0, it is the first record, and no other record of any
  depth has the attribute.
\<close>

theorem volume_label:
  assumes "readDir_files E sDir node fN sLabel nMax g = (Inr recs, g')"
  shows "\<exists>rest. count_attr_list ATTR_VOLUME rest = 0
     \<and> (sLabel = Some ''none'' \<longrightarrow> recs = rest)
     \<and> (sLabel = Some ''default'' \<longrightarrow>
           recs = FileData sDir PCJS_LABEL ATTR_VOLUME (now E) 0 None None # rest)
     \<and> (\<forall>l. sLabel = Some l \<and> l \<noteq> [] \<and> l \<noteq> ''none'' \<and> l \<noteq> ''default'' \<longrightarrow>
           recs = FileData sDir l ATTR_VOLUME (now E) 0 None None # rest)
     \<and> (falsy_label sLabel \<longrightarrow>
           readDir_files E sDir node fN sLabel nMax g =
             readDir_files E sDir node fN (Some (path_basename E sDir)) nMax g
           \<and> (path_basename E sDir \<noteq> [] \<and> path_basename E sDir \<noteq> ''none''
              \<and> path_basename E sDir \<noteq> ''default'' \<longrightarrow>
              recs = FileData sDir (path_basename E sDir) ATTR_VOLUME (now E) 0 None None # rest))"
proof -
  let ?l = "if falsy_label sLabel then Some (path_basename E sDir) else sLabel"
  from readDir_files_split [OF assms] obtain rest where
    recs: "recs = readDirFiles_label E sDir ?l @ rest"
    and inv: "walk_inv (g\<lparr>nMaxFiles := nMax_or_256 nMax\<rparr>) rest g'"
    by blast
  have v: "count_attr_list ATTR_VOLUME rest = 0" using inv by (simp add: walk_inv_def)
  have e: "falsy_label sLabel \<Longrightarrow> readDir_files E sDir node fN sLabel nMax g =
             readDir_files E sDir node fN (Some (path_basename E sDir)) nMax g"
    by (simp add: readDir_files_def Let_def falsy_label_def)
  from recs v e show ?thesis
    by (intro exI [of _ rest])
       (auto simp: readDirFiles_label_def falsy_label_def PCJS_LABEL_def Let_def split: option.splits)
qed

theorem volume_label_witness:
  "readDir_files test_env ''/x/r'' flat_tree False (Some ''default'') (Some 1) g0 =
     (Inr [FileData ''/x/r'' ''PCJS'' ATTR_VOLUME 0 0 None None,
           FileData ''/x/r/a'' ''a'' ATTR_NONE 0 1 (Some [65]) None], g0\<lparr>nMaxFiles := 0\<rparr>)
   \<and> readDir_files test_env ''/x/r'' flat_tree False None (Some 1) g0 =
     (Inr [FileData ''/x/r'' ''r'' ATTR_VOLUME 0 0 None None,
           FileData ''/x/r/a'' ''a'' ATTR_NONE 0 1 (Some [65]) None], g0\<lparr>nMaxFiles := 0\<rparr>)
   \<and> (\<exists>rest. count_attr_list ATTR_VOLUME rest = 0
         \<and> [FileData ''/x/r'' ''PCJS'' ATTR_VOLUME 0 0 None None,
             FileData ''/x/r/a'' ''a'' ATTR_NONE 0 1 (Some [65]) None]
            = FileData ''/x/r'' PCJS_LABEL ATTR_VOLUME (now test_env) 0 None None # rest)"
proof -
  have run: "readDir_files test_env ''/x/r'' flat_tree False (Some ''default'') (Some 1) g0 =
     (Inr [FileData ''/x/r'' ''PCJS'' ATTR_VOLUME 0 0 None None,
           FileData ''/x/r/a'' ''a'' ATTR_NONE 0 1 (Some [65]) None], g0\<lparr>nMaxFiles := 0\<rparr>)"
    by code_simp
  have run2: "readDir_files test_env ''/x/r'' flat_tree False None (Some 1) g0 =
     (Inr [FileData ''/x/r'' ''r'' ATTR_VOLUME 0 0 None None,
           FileData ''/x/r/a'' ''a'' ATTR_NONE 0 1 (Some [65]) None], g0\<lparr>nMaxFiles := 0\<rparr>)"
    by code_simp
  from volume_label [OF run] have "\<exists>rest. count_attr_list ATTR_VOLUME rest = 0
         \<and> [FileData ''/x/r'' ''PCJS'' ATTR_VOLUME 0 0 None None,
             FileData ''/x/r/a'' ''a'' ATTR_NONE 0 1 (Some [65]) None]
            = FileData ''/x/r'' PCJS_LABEL ATTR_VOLUME (now test_env) 0 None None # rest"
    by auto
  with run run2 show ?thesis by blast
qed

section \<open>Writing a disk image\<close>

lemma writeDisk_frame:
  "p \<noteq> sFile \<Longrightarrow> fst (writeDisk E D sFile di fLegacy indent fOverwrite (fs, g)) p = fs p"
  by (auto simp: writeDisk_def Let_def existsSync_def unlinkSync_def writeFileSync_def chmodSync_def
           split: option.splits fsobj.splits sum.splits if_splits)

lemma endsWith_last: "endsWith s suffix \<Longrightarrow> suffix \<noteq> [] \<Longrightarrow> last s = last suffix"
  by (metis endsWith_def last_drop drop_eq_Nil not_le)

lemma JSON_not_IMG: "endsWith s ''.JSON'' \<Longrightarrow> \<not> endsWith s ''.IMG''"
  using endsWith_last [of s "''.JSON''"] endsWith_last [of s "''.IMG''"] by auto

text \<open>
  C6, as the code has it. Where \<open>writeDisk\<close> may write (no file at the path, or the
  overwrite flag and a regular file), a name that ends in ".JSON" after conversion to
  upper case gets the JSON text and any other name gets the bytes of the image. A binary
  file whose name ends in ".IMG" after conversion to upper case is left with the mode
  0o444, which has no write bit; a binary file of any other name keeps the mode that it
  was created with.
\<close>

theorem writeDisk_output:
  assumes "fs sFile = None \<or> (fOverwrite \<and> (\<exists>b m. fs sFile = Some (RegFile b m)))"
  shows "fst (writeDisk E D sFile di fLegacy indent fOverwrite (fs, g)) sFile =
     (if endsWith (toUpperCase sFile) ''.JSON''
      then (if getJSON D di True fLegacy \<noteq> []
            then Some (RegFile (utf8_encode E (getJSON D di True fLegacy)) (create_mode E))
            else fs sFile)
      else (case getData D di of
              None \<Rightarrow> fs sFile
            | Some b \<Rightarrow> Some (RegFile b (if endsWith (toUpperCase sFile) ''.IMG''
                                          then mode_444 else create_mode E))))
     \<and> mode_444 AND write_bits = 0"
  using assms
  by (auto simp: writeDisk_def Let_def existsSync_def unlinkSync_def writeFileSync_def chmodSync_def
                 mode_444_def write_bits_def
           dest: JSON_not_IMG split: option.splits)

theorem writeDisk_output_witness:
  "fst (writeDisk test_env test_image ''disk.img'' [1, 2, 3] False 0 False (Map.empty, g0)) ''disk.img''
     = Some (RegFile [1, 2, 3] mode_444)
   \<and> fst (writeDisk test_env test_image ''disk.json'' [1, 2, 3] False 0 False (Map.empty, g0)) ''disk.json''
     = Some (RegFile [0x7B, 0x7D] 420)"
proof -
  have e: "Map.empty ''disk.img'' = None \<or> (False \<and> (\<exists>b m. Map.empty ''disk.img'' = Some (RegFile b m)))"
    by simp
  have f: "Map.empty ''disk.json'' = None \<or> (False \<and> (\<exists>b m. Map.empty ''disk.json'' = Some (RegFile b m)))"
    by simp
  have i: "endsWith (toUpperCase ''disk.img'') ''.IMG''" "\<not> endsWith (toUpperCase ''disk.img'') ''.JSON''"
    by code_simp+
  have j: "endsWith (toUpperCase ''disk.json'') ''.JSON''" by code_simp
  show ?thesis
    using writeDisk_output [OF e, where E = test_env and D = test_image and di = "[1, 2, 3]"
                              and fLegacy = False and indent = 0 and g = g0]
          writeDisk_output [OF f, where E = test_env and D = test_image and di = "[1, 2, 3]"
                              and fLegacy = False and indent = 0 and g = g0]
    by (simp add: i j test_env_def test_image_def)
qed

text \<open>
  C6 as the specification words it fails: the binary file "disk.dsk" is written with the
  mode 0o644 of a new file, which has the owner's write bit.
\<close>

theorem writeDisk_output_counterexample:
  "fst (writeDisk test_env test_image ''disk.dsk'' [1, 2, 3] False 0 False (Map.empty, g0)) ''disk.dsk''
     = Some (RegFile [1, 2, 3] 420)
   \<and> (420 :: nat) AND write_bits = 128"
  by code_simp

text \<open>
  C7. Without the overwrite flag, \<open>writeDisk\<close> on a path where a file exists leaves
  the whole store as it is and prints only that the file exists.
\<close>

theorem writeDisk_no_overwrite:
  "fs sFile \<noteq> None \<Longrightarrow>
     writeDisk E D sFile di fLegacy indent False (fs, g) =
       (fs, printf (ExistsUseOverwrite (path_basename E sFile)) g)"
  by (auto simp: writeDisk_def existsSync_def Let_def)

theorem writeDisk_no_overwrite_witness:
  "store0 canonical_json \<noteq> None
   \<and> writeDisk test_env test_image canonical_json [1, 2, 3] False 0 False (store0, g0) =
       (store0, g0\<lparr>printed := [ExistsUseOverwrite ''DISK1.json'']\<rparr>)"
proof -
  have a: "store0 canonical_json \<noteq> None" by (simp add: store0_def)
  have b: "path_basename test_env canonical_json = ''DISK1.json''" by code_simp
  from writeDisk_no_overwrite [where fs = store0 and sFile = canonical_json and E = test_env
         and D = test_image and di = "[1, 2, 3]" and fLegacy = False and indent = 0 and g = g0] a b
  show ?thesis by (simp add: printf_def g0_def)
qed

section \<open>The archive check\<close>

lemma compareDisks_result:
  "fst (compareDisks E sDisk1 sDisk2 (fs, g)) =
     (sDisk1 \<noteq> [] \<and> sDisk2 \<noteq> []
      \<and> (\<exists>b1 m1 b2 m2. fs sDisk1 = Some (RegFile b1 m1) \<and> fs sDisk2 = Some (RegFile b2 m2) \<and> b1 = b2))"
  by (auto simp: compareDisks_def readFile_def split: option.splits fsobj.splits prod.splits)

lemma checkArchive_img:
  assumes "endsWith sArchiveFile ''.img''"
  shows "checkArchive E D sFile sArchiveFile sName command options rebuild (Some di0) st =
     (case compareDisks E (tempIMG sName) sArchiveFile (after_writes E D sName command options di0 st) of
        (False, g3) \<Rightarrow> Inr (fst (after_writes E D sName command options di0 st),
                             printf (UnsuccessfullyRebuilt sArchiveFile) g3)
      | (True, g3) \<Rightarrow>
          (case unlinkSync (fst (after_writes E D sName command options di0 st)) (tempIMG sName) of
             Inl err \<Rightarrow> Inl err
           | Inr fs3 \<Rightarrow>
               (if rebuild
                then (case renameSync fs3 (tempJSON sName) sFile of
                        Inl err \<Rightarrow> Inl err
                      | Inr fs4 \<Rightarrow> Inr (fs4, g3))
                else (case unlinkSync fs3 (tempJSON sName) of
                        Inl err \<Rightarrow> Inl err
                      | Inr fs4 \<Rightarrow> Inr (fs4, g3)))))"
  unfolding checkArchive_def after_writes_def tempIMG_def Let_def using assms by simp

lemma two_writes_frame:
  assumes "p \<noteq> f1" and "p \<noteq> f2"
  shows "fst (writeDisk E D f2 d2 l2 i2 o2 (writeDisk E D f1 d1 l1 i1 o1 st)) p = fst st p"
proof -
  obtain fs g where st: "st = (fs, g)" by (cases st)
  obtain fs1 g1 where st1: "writeDisk E D f1 d1 l1 i1 o1 (fs, g) = (fs1, g1)"
    by (cases "writeDisk E D f1 d1 l1 i1 o1 (fs, g)")
  have "fs1 p = fs p"
    using writeDisk_frame [OF assms(1), of E D d1 l1 i1 o1 fs g] st1 by simp
  moreover have "fst (writeDisk E D f2 d2 l2 i2 o2 (fs1, g1)) p = fs1 p"
    by (rule writeDisk_frame [OF assms(2)])
  ultimately show ?thesis by (simp add: st st1)
qed

lemma after_writes_frame:
  assumes "p \<noteq> tempJSON sName" and "p \<noteq> tempIMG sName"
  shows "fst (after_writes E D sName command options di0 st) p = fst st p"
  unfolding after_writes_def Let_def by (rule two_writes_frame [OF assms])

lemma checkArchive_flagged:
  assumes "endsWith sArchiveFile ''.img''"
    and "\<not> fst (compareDisks E (tempIMG sName) sArchiveFile (after_writes E D sName command options di0 st))"
  shows "checkArchive E D sFile sArchiveFile sName command options rebuild (Some di0) st =
     Inr (fst (after_writes E D sName command options di0 st),
          printf (UnsuccessfullyRebuilt sArchiveFile)
            (snd (compareDisks E (tempIMG sName) sArchiveFile (after_writes E D sName command options di0 st))))"
  using assms(2) by (auto simp: checkArchive_img [OF assms(1)] split: prod.splits bool.splits)

lemma replace_json_length:
  "length (replace_first ''.json'' ''.img'' (x @ ''.json'')) = length x + 4"
  by (induction x) auto

lemma tempIMG_neq_tempJSON: "tempIMG sName \<noteq> tempJSON sName"
proof -
  obtain x where x: "tempJSON sName = x @ ''.json''"
    by (auto simp: tempJSON_def Let_def)
  have "length (tempIMG sName) = length x + 4"
    unfolding tempIMG_def x by (rule replace_json_length)
  moreover have "length (tempJSON sName) = length x + 5" by (simp add: x)
  ultimately show ?thesis by auto
qed

text \<open>
  C1, as the code has it. After a flagged mismatch (\<open>compareDisks\<close> is false for the
  temporary and the archived binary), the check ends without an exception, the warning
  is the last line printed, and the store is the one that the two \<open>writeDisk\<close> calls
  left, whether \<open>rebuild\<close> is set or not: the temporary binary and the temporary JSON
  are both kept, and a canonical JSON file of another name is what it was before.
\<close>

theorem flagged_mismatch:
  assumes "endsWith sArchiveFile ''.img''"
    and "\<not> fst (compareDisks E (tempIMG sName) sArchiveFile
                  (after_writes E D sName command options di0 st))"
  shows "checkArchive E D sFile sArchiveFile sName command options rebuild (Some di0) st =
           Inr (fst (after_writes E D sName command options di0 st),
                printf (UnsuccessfullyRebuilt sArchiveFile)
                  (snd (compareDisks E (tempIMG sName) sArchiveFile
                          (after_writes E D sName command options di0 st))))
     \<and> fst (after_writes E D sName command options di0 st) (tempJSON sName) =
         fst (writeDisk E D (tempJSON sName)
                (setArgs D di0 (command @ '' --output '' @ tempJSON sName @ options))
                False 0 True st) (tempJSON sName)
     \<and> (sFile \<noteq> tempJSON sName \<and> sFile \<noteq> tempIMG sName \<longrightarrow>
          fst (after_writes E D sName command options di0 st) sFile = fst st sFile)"
proof (intro conjI impI)
  show "checkArchive E D sFile sArchiveFile sName command options rebuild (Some di0) st =
           Inr (fst (after_writes E D sName command options di0 st),
                printf (UnsuccessfullyRebuilt sArchiveFile)
                  (snd (compareDisks E (tempIMG sName) sArchiveFile
                          (after_writes E D sName command options di0 st))))"
    by (rule checkArchive_flagged [OF assms])
next
  let ?st1 = "writeDisk E D (tempJSON sName)
                (setArgs D di0 (command @ '' --output '' @ tempJSON sName @ options)) False 0 True st"
  obtain fs1 g1 where st1: "?st1 = (fs1, g1)" by (cases ?st1)
  have "fst (writeDisk E D (tempIMG sName) d2 False 0 True (fs1, g1)) (tempJSON sName) = fs1 (tempJSON sName)" for d2
    by (rule writeDisk_frame) (simp add: tempIMG_neq_tempJSON [symmetric])
  then show "fst (after_writes E D sName command options di0 st) (tempJSON sName) = fst ?st1 (tempJSON sName)"
    unfolding after_writes_def Let_def st1 by simp
next
  assume "sFile \<noteq> tempJSON sName \<and> sFile \<noteq> tempIMG sName"
  then show "fst (after_writes E D sName command options di0 st) sFile = fst st sFile"
    by (simp add: after_writes_frame)
qed

theorem flagged_mismatch_witness:
  "endsWith archived_img ''.img''
   \<and> \<not> fst (compareDisks test_env (tempIMG ''DISK1.img'') archived_img
               (after_writes test_env test_image ''DISK1.img'' ''--disk DISK1.img'' [] [1, 2, 3] (store0, g0)))
   \<and> checkArchive test_env test_image canonical_json archived_img ''DISK1.img''
           ''--disk DISK1.img'' [] True (Some [1, 2, 3]) (store0, g0) =
       Inr (fst (after_writes test_env test_image ''DISK1.img'' ''--disk DISK1.img'' [] [1, 2, 3] (store0, g0)),
            printf (UnsuccessfullyRebuilt archived_img)
              (snd (compareDisks test_env (tempIMG ''DISK1.img'') archived_img
                      (after_writes test_env test_image ''DISK1.img'' ''--disk DISK1.img'' [] [1, 2, 3] (store0, g0)))))
   \<and> fst (after_writes test_env test_image ''DISK1.img'' ''--disk DISK1.img'' [] [1, 2, 3] (store0, g0))
         canonical_json = Some (RegFile [1] 420)"
proof -
  have a: "endsWith archived_img ''.img''" by code_simp
  have b: "\<not> fst (compareDisks test_env (tempIMG ''DISK1.img'') archived_img
               (after_writes test_env test_image ''DISK1.img'' ''--disk DISK1.img'' [] [1, 2, 3] (store0, g0)))"
    by code_simp
  have c: "canonical_json \<noteq> tempJSON ''DISK1.img'' \<and> canonical_json \<noteq> tempIMG ''DISK1.img''"
    by code_simp
  have d: "store0 canonical_json = Some (RegFile [1] 420)" by code_simp
  from flagged_mismatch [OF a b, of canonical_json True] a b c d show ?thesis by simp
qed

text \<open>
  C1 as the specification words it fails. The image [1, 2, 3] is checked against an
  archived binary [1, 2, 4]. With \<open>rebuild\<close> set, the temporary DISK1.json is still
  there after the check and the canonical JSON file still holds its old content: it is
  not promoted. Without \<open>rebuild\<close>, the temporary DISK1.json is still there: it is
  not deleted.
\<close>

theorem flagged_mismatch_counterexample:
  "\<not> isl (checkArchive test_env test_image canonical_json archived_img ''DISK1.img''
             ''--disk DISK1.img'' [] True (Some [1, 2, 3]) (store0, g0))
   \<and> fst (projr (checkArchive test_env test_image canonical_json archived_img ''DISK1.img''
             ''--disk DISK1.img'' [] True (Some [1, 2, 3]) (store0, g0))) ''DISK1.json''
       = Some (RegFile [0x7B, 0x7D] 420)
   \<and> fst (projr (checkArchive test_env test_image canonical_json archived_img ''DISK1.img''
             ''--disk DISK1.img'' [] True (Some [1, 2, 3]) (store0, g0))) canonical_json
       = Some (RegFile [1] 420)
   \<and> fst (projr (checkArchive test_env test_image canonical_json archived_img ''DISK1.img''
             ''--disk DISK1.img'' [] True (Some [1, 2, 3]) (store0, g0))) ''DISK1.img''
       = Some (RegFile [1, 2, 3] 292)
   \<and> printed (snd (projr (checkArchive test_env test_image canonical_json archived_img ''DISK1.img''
             ''--disk DISK1.img'' [] True (Some [1, 2, 3]) (store0, g0))))
       = [Writing ''DISK1.json'', Writing ''DISK1.img'', UnsuccessfullyRebuilt archived_img]
   \<and> \<not> isl (checkArchive test_env test_image canonical_json archived_img ''DISK1.img''
             ''--disk DISK1.img'' [] False (Some [1, 2, 3]) (store0, g0))
   \<and> fst (projr (checkArchive test_env test_image canonical_json archived_img ''DISK1.img''
             ''--disk DISK1.img'' [] False (Some [1, 2, 3]) (store0, g0))) ''DISK1.json''
       = Some (RegFile [0x7B, 0x7D] 420)"
  by code_simp

lemma img_not_slash: "endsWith s ''.img'' \<Longrightarrow> \<not> endsWith s ''/''"
  using endsWith_last [of s "''.img''"] endsWith_last [of s "''/''"] by auto

lemma compareDisks_printed:
  "snd (compareDisks E sDisk1 sDisk2 (fs, g)) =
     g\<lparr>printed := printed g
          @ (if sDisk1 \<noteq> [] \<and> fs sDisk1 = Some Unreadable then [ErrorMessage sDisk1] else [])
          @ (if sDisk2 \<noteq> [] \<and> fs sDisk2 = Some Unreadable then [ErrorMessage sDisk2] else [])\<rparr>"
  by (auto simp: compareDisks_def readFile_def printf_def split: option.splits fsobj.splits prod.splits)

lemma readDisk_not_readable:
  "not_readable (fs sFile) \<Longrightarrow>
     readDisk E D sFile forceBPB sectorIDs sectorErrors suppData (fs, g) =
       (None, printf (ErrorMessage sFile) g)"
  by (cases "fs sFile" rule: not_readable.cases)
     (auto simp: readDisk_def readFileSync_def Let_def)

text \<open>
  C10, as the code has it. \<open>compareDisks\<close> is true exactly when both paths name
  regular files with equal bytes, so it is false when one of them is missing or cannot
  be read; it prints an error line for each of the two that exists and cannot be read,
  and nothing else. In the archive check, a temporary binary that is missing or cannot
  be read when it is compared ends the check like a mismatch: no exception, and the
  "unsuccessfully rebuilt" warning as the last line. An archived binary that is missing
  or cannot be read does not get that far: \<open>readDisk\<close> prints the error and returns
  \<open>null\<close>, the check of the entry is skipped, the store stays as it is and no warning
  is printed.
\<close>

theorem compareDisks_in_archive_check:
  "fst (compareDisks E sDisk1 sDisk2 (fs, g)) =
     (sDisk1 \<noteq> [] \<and> sDisk2 \<noteq> []
      \<and> (\<exists>b1 m1 b2 m2. fs sDisk1 = Some (RegFile b1 m1) \<and> fs sDisk2 = Some (RegFile b2 m2) \<and> b1 = b2))
   \<and> snd (compareDisks E sDisk1 sDisk2 (fs, g)) =
       g\<lparr>printed := printed g
          @ (if sDisk1 \<noteq> [] \<and> fs sDisk1 = Some Unreadable then [ErrorMessage sDisk1] else [])
          @ (if sDisk2 \<noteq> [] \<and> fs sDisk2 = Some Unreadable then [ErrorMessage sDisk2] else [])\<rparr>
   \<and> (endsWith sArchiveFile ''.img''
       \<and> readDisk E D sArchiveFile False sectorIDs sectorErrors suppData st = (Some di0, g1)
       \<and> not_readable
            (fst (after_writes E D (path_basename E sArchiveFile)
                    (''--disk '' @ path_basename E sArchiveFile) options di0 (fst st, g1))
               (tempIMG (path_basename E sArchiveFile))) \<longrightarrow>
        readAndCheckArchive E D sFile sArchiveFile tree options rebuild sectorIDs sectorErrors suppData st =
          Inr (fst (after_writes E D (path_basename E sArchiveFile)
                      (''--disk '' @ path_basename E sArchiveFile) options di0 (fst st, g1)),
               printf (UnsuccessfullyRebuilt sArchiveFile)
                 (snd (compareDisks E (tempIMG (path_basename E sArchiveFile)) sArchiveFile
                         (after_writes E D (path_basename E sArchiveFile)
                            (''--disk '' @ path_basename E sArchiveFile) options di0 (fst st, g1))))))
   \<and> (\<not> endsWith sArchiveFile ''/'' \<and> not_readable (fst st sArchiveFile) \<longrightarrow>
        readAndCheckArchive E D sFile sArchiveFile tree options rebuild sectorIDs sectorErrors suppData st =
          Inr (fst st, printf (ErrorMessage sArchiveFile) (snd st)))"
proof (intro conjI impI)
  show "fst (compareDisks E sDisk1 sDisk2 (fs, g)) =
     (sDisk1 \<noteq> [] \<and> sDisk2 \<noteq> []
      \<and> (\<exists>b1 m1 b2 m2. fs sDisk1 = Some (RegFile b1 m1) \<and> fs sDisk2 = Some (RegFile b2 m2) \<and> b1 = b2))"
    by (rule compareDisks_result)
next
  show "snd (compareDisks E sDisk1 sDisk2 (fs, g)) =
       g\<lparr>printed := printed g
          @ (if sDisk1 \<noteq> [] \<and> fs sDisk1 = Some Unreadable then [ErrorMessage sDisk1] else [])
          @ (if sDisk2 \<noteq> [] \<and> fs sDisk2 = Some Unreadable then [ErrorMessage sDisk2] else [])\<rparr>"
    by (rule compareDisks_printed)
next
  let ?n = "path_basename E sArchiveFile"
  let ?st2 = "after_writes E D ?n (''--disk '' @ ?n) options di0 (fst st, g1)"
  assume a: "endsWith sArchiveFile ''.img''
       \<and> readDisk E D sArchiveFile False sectorIDs sectorErrors suppData st = (Some di0, g1)
       \<and> not_readable (fst ?st2 (tempIMG ?n))"
  obtain fs2 g2 where st2: "?st2 = (fs2, g2)" by (cases ?st2)
  from a st2 have "\<not> (\<exists>b1 m1 b2 m2. fs2 (tempIMG ?n) = Some (RegFile b1 m1)
                          \<and> fs2 sArchiveFile = Some (RegFile b2 m2) \<and> b1 = b2)"
    by auto
  then have ne: "\<not> fst (compareDisks E (tempIMG ?n) sArchiveFile ?st2)"
    unfolding st2 by (simp add: compareDisks_result)
  from a have ns: "\<not> endsWith sArchiveFile ''/''" by (simp add: img_not_slash)
  have "readAndCheckArchive E D sFile sArchiveFile tree options rebuild sectorIDs sectorErrors suppData st =
          checkArchive E D sFile sArchiveFile ?n (''--disk '' @ ?n) options rebuild (Some di0) (fst st, g1)"
    using a ns unfolding readAndCheckArchive_def Let_def by simp
  also have "\<dots> = Inr (fst ?st2, printf (UnsuccessfullyRebuilt sArchiveFile)
                 (snd (compareDisks E (tempIMG ?n) sArchiveFile ?st2)))"
    using a ne by (intro checkArchive_flagged) simp_all
  finally show "readAndCheckArchive E D sFile sArchiveFile tree options rebuild sectorIDs sectorErrors suppData st =
          Inr (fst ?st2, printf (UnsuccessfullyRebuilt sArchiveFile)
                 (snd (compareDisks E (tempIMG ?n) sArchiveFile ?st2)))" .
next
  assume a: "\<not> endsWith sArchiveFile ''/'' \<and> not_readable (fst st sArchiveFile)"
  obtain fs g where st: "st = (fs, g)" by (cases st)
  from a st have "readDisk E D sArchiveFile False sectorIDs sectorErrors suppData st =
       (None, printf (ErrorMessage sArchiveFile) g)"
    by (simp add: readDisk_not_readable)
  with a st show "readAndCheckArchive E D sFile sArchiveFile tree options rebuild sectorIDs sectorErrors suppData st =
          Inr (fst st, printf (ErrorMessage sArchiveFile) (snd st))"
    unfolding readAndCheckArchive_def Let_def by (simp add: checkArchive_def)
qed

theorem compareDisks_in_archive_check_witness:
  "readDisk test_env (test_image\<lparr>getData := (\<lambda>d. None)\<rparr>) archived_img False None None None
       (store0, g0) = (Some [1, 2, 4], g0)
   \<and> not_readable (fst (after_writes test_env (test_image\<lparr>getData := (\<lambda>d. None)\<rparr>) ''DISK1.img''
                        ''--disk DISK1.img'' [] [1, 2, 4] (store0, g0)) (tempIMG ''DISK1.img''))
   \<and> \<not> isl (readAndCheckArchive test_env (test_image\<lparr>getData := (\<lambda>d. None)\<rparr>) canonical_json
              archived_img FsDangling [] False None None None (store0, g0))
   \<and> printed (snd (projr (readAndCheckArchive test_env (test_image\<lparr>getData := (\<lambda>d. None)\<rparr>)
              canonical_json archived_img FsDangling [] False None None None (store0, g0))))
       = [Writing ''DISK1.json'', NotWritten ''DISK1.img'', UnsuccessfullyRebuilt archived_img]
   \<and> not_readable (store_no_archive archived_img)
   \<and> readAndCheckArchive test_env test_image canonical_json archived_img FsDangling [] False
         None None None (store_no_archive, g0)
       = Inr (store_no_archive, printf (ErrorMessage archived_img) g0)"
proof -
  let ?D = "test_image\<lparr>getData := (\<lambda>d. None)\<rparr>"
  let ?st2 = "after_writes test_env ?D ''DISK1.img'' ''--disk DISK1.img'' [] [1, 2, 4] (store0, g0)"
  have n: "path_basename test_env archived_img = ''DISK1.img''" by code_simp
  have a: "endsWith archived_img ''.img''" by code_simp
  have s: "\<not> endsWith archived_img ''/''" by code_simp
  have r: "readDisk test_env ?D archived_img False None None None (store0, g0) = (Some [1, 2, 4], g0)"
    by code_simp
  have b: "not_readable (fst ?st2 (tempIMG ''DISK1.img''))" by code_simp
  have c: "printed (printf (UnsuccessfullyRebuilt archived_img)
                 (snd (compareDisks test_env (tempIMG ''DISK1.img'') archived_img ?st2))) =
             [Writing ''DISK1.json'', NotWritten ''DISK1.img'', UnsuccessfullyRebuilt archived_img]"
    by code_simp
  have m: "not_readable (store_no_archive archived_img)" by code_simp
  from compareDisks_in_archive_check [where E = test_env and D = ?D and sArchiveFile = archived_img
         and sectorIDs = None and sectorErrors = None and suppData = None and st = "(store0, g0)"
         and ?di0.0 = "[1, 2, 4]" and ?g1.0 = g0 and options = "[]" and sFile = canonical_json
         and tree = FsDangling and rebuild = False and ?sDisk1.0 = "[]" and ?sDisk2.0 = "[]"
         and fs = Map.empty and g = g0] a r b n
  have w1: "readAndCheckArchive test_env ?D canonical_json archived_img FsDangling [] False
              None None None (store0, g0) =
            Inr (fst ?st2, printf (UnsuccessfullyRebuilt archived_img)
                 (snd (compareDisks test_env (tempIMG ''DISK1.img'') archived_img ?st2)))"
    by simp
  from compareDisks_in_archive_check [where E = test_env and D = test_image
         and sArchiveFile = archived_img
         and sectorIDs = None and sectorErrors = None and suppData = None
         and st = "(store_no_archive, g0)" and options = "[]" and sFile = canonical_json
         and tree = FsDangling and rebuild = False and ?sDisk1.0 = "[]" and ?sDisk2.0 = "[]"
         and fs = Map.empty and g = g0] s m
  have w2: "readAndCheckArchive test_env test_image canonical_json archived_img FsDangling [] False
              None None None (store_no_archive, g0)
            = Inr (store_no_archive, printf (ErrorMessage archived_img) g0)"
    by simp
  from r b c m w1 w2 show ?thesis by simp
qed

text \<open>
  C10 as the specification words it fails. Without the archived image, the archive check
  prints the error line of \<open>readDisk\<close> and no warning. With a temporary binary that
  cannot be read, the warning comes after the error lines of \<open>writeDisk\<close> and of
  \<open>readFile\<close>.
\<close>

theorem unreadable_archive_counterexample:
  "\<not> isl (readAndCheckArchive test_env test_image canonical_json archived_img FsDangling [] False
             None None None (store_no_archive, g0))
   \<and> printed (snd (projr (readAndCheckArchive test_env test_image canonical_json archived_img
             FsDangling [] False None None None (store_no_archive, g0))))
       = [ErrorMessage archived_img]
   \<and> \<not> isl (readAndCheckArchive test_env test_image canonical_json archived_img FsDangling [] False
             None None None (store_blocked_temp, g0))
   \<and> printed (snd (projr (readAndCheckArchive test_env test_image canonical_json archived_img
             FsDangling [] False None None None (store_blocked_temp, g0))))
       = [Writing ''DISK1.json'', Writing ''DISK1.img'', ErrorMessage ''DISK1.img'',
          ErrorMessage ''DISK1.img'', UnsuccessfullyRebuilt archived_img]"
  by code_simp

end
